theory Spec2Isabelle
  imports Main "HOL-Library.Sublist"
begin

section \<open>Static configuration of the unblocker service\<close>

text \<open>
  The service (\<^verbatim>\<open>UnblockerService\<close>) drives a headless browser through Puppeteer.
  Strings are modelled as \<^typ>\<open>string\<close>; HTTP status codes as \<^typ>\<open>nat\<close>.
\<close>

definition NETWORK_IDLE_TIMEOUT :: nat where
  "NETWORK_IDLE_TIMEOUT = 60000"

definition BLOCKED_TRACKING_DOMAINS :: "string list" where
  "BLOCKED_TRACKING_DOMAINS =
     [''google-analytics.com'', ''googletagmanager.com'', ''doubleclick.net'',
      ''facebook.net'', ''twitter.com'', ''analytics.yahoo.com'', ''adservice.google.com'']"

text \<open>Modelled from the spec: \<^verbatim>\<open>HttpStatus.BAD_GATEWAY\<close> is imported from the framework
  package, which is not part of the sources; the specification gives its value, 502.\<close>

definition BAD_GATEWAY :: nat where
  "BAD_GATEWAY = 502"

text \<open>Modelled from the spec: \<^verbatim>\<open>HttpStatus.FORBIDDEN\<close> is imported from the framework
  package, which is not part of the sources; the specification gives its value, 403.\<close>

definition FORBIDDEN :: nat where
  "FORBIDDEN = 403"

text \<open>Modelled from the spec: \<^verbatim>\<open>HttpStatus.GATEWAY_TIMEOUT\<close> is imported from the
  framework package, which is not part of the sources; the specification gives its value, 504.\<close>

definition GATEWAY_TIMEOUT :: nat where
  "GATEWAY_TIMEOUT = 504"

text \<open>Modelled from the spec: \<^verbatim>\<open>HttpStatus.INTERNAL_SERVER_ERROR\<close> is imported from the
  framework package, which is not part of the sources; the specification gives its value, 500.\<close>

definition INTERNAL_SERVER_ERROR :: nat where
  "INTERNAL_SERVER_ERROR = 500"

section \<open>String operations of the host language\<close>

text \<open>\<^verbatim>\<open>haystack.includes(needle)\<close>: the needle occurs at some position of the haystack.\<close>

fun starts_with :: "string \<Rightarrow> string \<Rightarrow> bool" where
  "starts_with cs [] = True"
| "starts_with [] (d # ds) = False"
| "starts_with (c # cs) (d # ds) = (if c = d then starts_with cs ds else False)"

fun includes_str :: "string \<Rightarrow> string \<Rightarrow> bool" where
  "includes_str [] needle = (needle = [])"
| "includes_str (c # cs) needle =
     (if starts_with (c # cs) needle then True else includes_str cs needle)"

text \<open>Decimal rendering of a number inside a template literal.\<close>

definition digit :: "nat \<Rightarrow> char" where
  "digit d = ''0123456789'' ! d"

fun show_nat :: "nat \<Rightarrow> string" where
  "show_nat n = (if n < 10 then [digit n] else show_nat (n div 10) @ [digit (n mod 10)])"

declare show_nat.simps [simp del]

section \<open>The pattern \<^verbatim>\<open>/\/[A-Z0-9]+\/init\.js/i\<close>\<close>

text \<open>
  The flag \<^verbatim>\<open>i\<close> compares characters after canonicalisation, which maps the
  letters a to z to A to Z and never maps a character outside ASCII into ASCII.
  The pattern has neither the flag \<^verbatim>\<open>g\<close> nor \<^verbatim>\<open>y\<close>, so \<^verbatim>\<open>test\<close> keeps
  no position between calls and searches from the start of the string.
\<close>

definition canonicalize :: "char \<Rightarrow> char" where
  "canonicalize c =
     (case map_of (zip ''abcdefghijklmnopqrstuvwxyz'' ''ABCDEFGHIJKLMNOPQRSTUVWXYZ'') c of
        Some upper \<Rightarrow> upper
      | None \<Rightarrow> c)"

text \<open>The class \<^verbatim>\<open>[A-Z0-9]\<close> under the flag \<^verbatim>\<open>i\<close>.\<close>

definition in_class :: "char \<Rightarrow> bool" where
  "in_class c = (canonicalize c \<in> set ''ABCDEFGHIJKLMNOPQRSTUVWXYZ0123456789'')"

fun match_literal :: "string \<Rightarrow> string \<Rightarrow> bool" where
  "match_literal [] cs = True"
| "match_literal (p # ps) [] = False"
| "match_literal (p # ps) (c # cs) =
     (if canonicalize p = canonicalize c then match_literal ps cs else False)"

text \<open>The greedy run \<^verbatim>\<open>[A-Z0-9]+\<close> followed by \<^verbatim>\<open>\/init\.js\<close>; the flag records
  whether the run has consumed a character yet.\<close>

fun match_segment :: "bool \<Rightarrow> string \<Rightarrow> bool" where
  "match_segment seen [] = False"
| "match_segment seen (c # cs) =
     (if in_class c then match_segment True cs
      else if seen then match_literal ''/init.js'' (c # cs)
      else False)"

fun match_at :: "string \<Rightarrow> bool" where
  "match_at [] = False"
| "match_at (c # cs) = (if c = CHR ''/'' then match_segment False cs else False)"

fun PXSCRIPT_PATTERN_test :: "string \<Rightarrow> bool" where
  "PXSCRIPT_PATTERN_test [] = False"
| "PXSCRIPT_PATTERN_test (c # cs) =
     (if match_at (c # cs) then True else PXSCRIPT_PATTERN_test cs)"

text \<open>The language of the pattern, stated without reference to the matcher.\<close>

definition px_init_script :: "string \<Rightarrow> bool" where
  "px_init_script u =
     (\<exists>pre seg lit post. u = pre @ ''/'' @ seg @ lit @ post \<and> seg \<noteq> [] \<and>
        (\<forall>c \<in> set seg. in_class c) \<and>
        map canonicalize lit = map canonicalize ''/init.js'')"

section \<open>The request interception handler\<close>

record HTTPRequest =
  request_url :: string
  request_method :: string
  resource_type :: string

datatype effect = LogWarn string | LogLog string | Abort string | Continue

definition on_request :: "HTTPRequest \<Rightarrow> effect list" where
  "on_request request =
     (let requestUrl = request_url request in
      if PXSCRIPT_PATTERN_test requestUrl then
        [LogWarn (''Aborting PerimeterX init.js: '' @ requestUrl), Abort ''aborted'']
      else if list_ex (\<lambda>domain. includes_str requestUrl domain) BLOCKED_TRACKING_DOMAINS then
        [LogLog (''Aborting tracker: '' @ requestUrl), Abort ''aborted'']
      else [Continue])"

definition aborts :: "effect list \<Rightarrow> nat" where
  "aborts es = length (filter (\<lambda>e. case e of Abort _ \<Rightarrow> True | _ \<Rightarrow> False) es)"

definition continues :: "effect list \<Rightarrow> nat" where
  "continues es = length (filter (\<lambda>e. e = Continue) es)"

section \<open>The browser, the service and the calls it issues\<close>

text \<open>
  A thrown value: an instance of Puppeteer's \<^verbatim>\<open>TimeoutError\<close>, a \<^verbatim>\<open>TypeError\<close>, any
  other error object, or one of the values null and undefined.
\<close>

datatype exn = TimeoutError | TypeError | Error | Nullish

record Browser =
  bid :: nat
  connected :: bool

datatype call =
    Launch | CreateBrowserContext | NewPage
  | SetUserAgent | SetViewport | EvaluateOnNewDocument | SetRequestInterception
  | Goto string | Content | PageClose

text \<open>
  The state: the field \<^verbatim>\<open>this.browser\<close> of the service, the calls issued to
  Puppeteer so far, in order, and the current URL of the page of the running request.
\<close>

record service =
  browser :: "Browser option"
  calls :: "call list"
  location :: string

text \<open>
  What the browser answers to each awaited call of one request: a rejected
  promise is \<open>Inl\<close>. Navigation resolves to a response (its status) or to null,
  and leaves the page at \<open>landing\<close>.
\<close>

record puppeteer =
  launch :: "exn + Browser"
  createBrowserContext :: "exn + unit"
  newPage :: "exn + unit"
  setUserAgent :: "exn + unit"
  setViewport :: "exn + unit"
  evaluateOnNewDocument :: "exn + unit"
  setRequestInterception :: "exn + unit"
  page_goto :: "exn + nat option"
  landing :: string
  page_content :: "exn + string"
  page_close :: "exn + unit"

record PageContentResult =
  html :: "string option"
  status :: nat
  error :: "string option"
  finalUrl :: "string option"

definition record_call :: "call \<Rightarrow> service \<Rightarrow> service" where
  "record_call c s = s\<lparr>calls := calls s @ [c]\<rparr>"

text \<open>An awaited call: a rejection is thrown, a resolution is passed to the rest.\<close>

definition await ::
  "call \<Rightarrow> exn + 'a \<Rightarrow> ('a \<Rightarrow> service \<Rightarrow> (exn + 'b) \<times> service) \<Rightarrow> service \<Rightarrow> (exn + 'b) \<times> service"
where
  "await c outcome k s =
     (case outcome of
        Inl e \<Rightarrow> (Inl e, record_call c s)
      | Inr v \<Rightarrow> k v (record_call c s))"

definition return :: "'b \<Rightarrow> service \<Rightarrow> (exn + 'b) \<times> service" where
  "return r s = (Inr r, s)"

definition throw :: "exn \<Rightarrow> service \<Rightarrow> (exn + 'b) \<times> service" where
  "throw e s = (Inl e, s)"

subsection \<open>getBrowser\<close>

text \<open>The observer registered on a launched browser clears the stored handle.\<close>

definition on_disconnected :: "service \<Rightarrow> service" where
  "on_disconnected s = s\<lparr>browser := None\<rparr>"

definition getBrowser :: "puppeteer \<Rightarrow> service \<Rightarrow> (exn + Browser) \<times> service" where
  "getBrowser p s =
     (case browser s of
        Some b \<Rightarrow>
          if connected b then (Inr b, s)
          else await Launch (launch p) (\<lambda>newBrowser s'. (Inr newBrowser, s'\<lparr>browser := Some newBrowser\<rparr>)) s
      | None \<Rightarrow>
          await Launch (launch p) (\<lambda>newBrowser s'. (Inr newBrowser, s'\<lparr>browser := Some newBrowser\<rparr>)) s)"

subsection \<open>getPageContent\<close>

text \<open>\<^verbatim>\<open>page.url()\<close> is a string; \<^verbatim>\<open>a ?? b\<close> is \<open>b\<close> only when \<open>a\<close> is null or undefined.\<close>

definition page_url :: "service \<Rightarrow> string option" where
  "page_url s = Some (location s)"

definition nullish_coalescing :: "'a option \<Rightarrow> 'a \<Rightarrow> 'a" where
  "nullish_coalescing a b = (case a of None \<Rightarrow> b | Some v \<Rightarrow> v)"

definition goto ::
  "puppeteer \<Rightarrow> string \<Rightarrow> (nat option \<Rightarrow> service \<Rightarrow> (exn + 'b) \<times> service) \<Rightarrow> service \<Rightarrow> (exn + 'b) \<times> service"
where
  "goto p u k s = await (Goto u) (page_goto p) k (s\<lparr>location := landing p\<rparr>)"

definition try_block :: "puppeteer \<Rightarrow> string \<Rightarrow> service \<Rightarrow> (exn + PageContentResult) \<times> service" where
  "try_block p u =
     await SetUserAgent (setUserAgent p) (\<lambda>_.
     await SetViewport (setViewport p) (\<lambda>_.
     await EvaluateOnNewDocument (evaluateOnNewDocument p) (\<lambda>_.
     await SetRequestInterception (setRequestInterception p) (\<lambda>_.
     goto p u (\<lambda>response.
       case response of
         None \<Rightarrow> (\<lambda>s. return
           \<lparr>html = None, status = BAD_GATEWAY,
            error = Some ''Navigation failed, no response received from the server.'',
            finalUrl = page_url s\<rparr> s)
       | Some st \<Rightarrow>
           await Content (page_content p) (\<lambda>h s.
             if includes_str h ''px-captcha'' \<or> st = 403 then
               return \<lparr>html = Some h, status = FORBIDDEN,
                 error = Some ''Bot detection or captcha was triggered.'',
                 finalUrl = page_url s\<rparr> s
             else
               return \<lparr>html = Some h, status = st, error = None, finalUrl = page_url s\<rparr> s))))))"

text \<open>
  The handler first logs \<^verbatim>\<open>error.stack\<close>; reading a property of null or undefined
  throws a \<^verbatim>\<open>TypeError\<close> out of the handler. Otherwise the thrown value is classified.
\<close>

definition catch_block :: "string \<Rightarrow> exn \<Rightarrow> service \<Rightarrow> exn + PageContentResult" where
  "catch_block u e s =
     (if e = Nullish then Inl TypeError
      else if e = TimeoutError then
        Inr \<lparr>html = None, status = GATEWAY_TIMEOUT,
         error = Some (''Navigation timed out after '' @ show_nat (NETWORK_IDLE_TIMEOUT div 1000)
                   @ ''s. The target page is likely too slow or unresponsive.''),
         finalUrl = Some (nullish_coalescing (page_url s) u)\<rparr>
      else
        Inr \<lparr>html = None, status = INTERNAL_SERVER_ERROR,
         error = Some ''An unexpected internal error occurred during page processing. See service logs for details.'',
         finalUrl = Some (nullish_coalescing (page_url s) u)\<rparr>)"

text \<open>
  The \<^verbatim>\<open>try\<close> statement: the handler turns a thrown value into a result or throws
  itself; the \<^verbatim>\<open>finally\<close> clause then closes the page, and a rejection there replaces
  the result or the exception on its way out.
\<close>

definition try_catch_finally :: "puppeteer \<Rightarrow> string \<Rightarrow> service \<Rightarrow> (exn + PageContentResult) \<times> service" where
  "try_catch_finally p u s =
     (case try_block p u s of
        (Inl e, s') \<Rightarrow>
          (case catch_block u e s' of
             Inl e' \<Rightarrow> await PageClose (page_close p) (\<lambda>_. throw e') s'
           | Inr r \<Rightarrow> await PageClose (page_close p) (\<lambda>_. return r) s')
      | (Inr r, s') \<Rightarrow> await PageClose (page_close p) (\<lambda>_. return r) s')"

definition getPageContent :: "puppeteer \<Rightarrow> string \<Rightarrow> service \<Rightarrow> (exn + PageContentResult) \<times> service" where
  "getPageContent p u s =
     (case getBrowser p s of
        (Inl e, s') \<Rightarrow> (Inl e, s')
      | (Inr b, s') \<Rightarrow>
          await CreateBrowserContext (createBrowserContext p) (\<lambda>_.
          await NewPage (newPage p) (\<lambda>_ s''.
            try_catch_finally p u (s''\<lparr>location := ''about:blank''\<rparr>))) s')"

section \<open>Conditions on a run and concrete scenarios\<close>

text \<open>The browser, the browsing context and the page have been obtained.\<close>

definition page_ready :: "puppeteer \<Rightarrow> service \<Rightarrow> bool" where
  "page_ready p s =
     ((case fst (getBrowser p s) of Inl e \<Rightarrow> False | Inr b \<Rightarrow> True) \<and>
      createBrowserContext p = Inr () \<and> newPage p = Inr ())"

text \<open>The four configuration calls before navigation all resolve.\<close>

definition configured :: "puppeteer \<Rightarrow> bool" where
  "configured p =
     (setUserAgent p = Inr () \<and> setViewport p = Inr () \<and>
      evaluateOnNewDocument p = Inr () \<and> setRequestInterception p = Inr ())"

text \<open>The state in which the \<^verbatim>\<open>try\<close> statement is entered.\<close>

definition entry :: "puppeteer \<Rightarrow> service \<Rightarrow> service" where
  "entry p s =
     (record_call NewPage (record_call CreateBrowserContext (snd (getBrowser p s))))
       \<lparr>location := ''about:blank''\<rparr>"

definition idle :: service where
  "idle = \<lparr>browser = None, calls = [], location = []\<rparr>"

definition chrome :: Browser where
  "chrome = \<lparr>bid = 1, connected = True\<rparr>"


definition example_url :: string where
  "example_url = ''https://example.test/ok''"

definition ok_page :: puppeteer where
  "ok_page =
     \<lparr>launch = Inr chrome, createBrowserContext = Inr (), newPage = Inr (),
      setUserAgent = Inr (), setViewport = Inr (), evaluateOnNewDocument = Inr (),
      setRequestInterception = Inr (), page_goto = Inr (Some 200),
      landing = ''https://example.test/ok'', page_content = Inr ''<html>...</html>'',
      page_close = Inr ()\<rparr>"

definition init_script_request :: HTTPRequest where
  "init_script_request =
     \<lparr>request_url = ''https://www.google-analytics.com/AB12CD34/init.js'', request_method = ''GET'',
      resource_type = ''script''\<rparr>"

definition tracker_request :: HTTPRequest where
  "tracker_request =
     \<lparr>request_url = ''https://www.google-analytics.com/collect'', request_method = ''GET'', resource_type = ''script''\<rparr>"

definition document_request :: HTTPRequest where
  "document_request =
     \<lparr>request_url = ''https://example.test/ok'', request_method = ''GET'', resource_type = ''document''\<rparr>"

section \<open>Strings and the pattern\<close>

lemma starts_with_prefix: "starts_with cs ds \<longleftrightarrow> prefix ds cs"
  by (induction cs ds rule: starts_with.induct) auto

lemma includes_str_sublist: "includes_str h n \<longleftrightarrow> sublist n h"
  by (induction h) (auto simp: starts_with_prefix sublist_Cons_right)

lemma not_in_class_slash: "canonicalize c = CHR ''/'' \<Longrightarrow> \<not> in_class c"
  by (simp add: in_class_def)

lemma match_literal_iff:
  "match_literal ps cs \<longleftrightarrow> (\<exists>lit post. cs = lit @ post \<and> map canonicalize lit = map canonicalize ps)"
proof (induction ps cs rule: match_literal.induct)
  case (1 cs)
  then show ?case by simp
next
  case (2 p ps)
  then show ?case by simp
next
  case (3 p ps c cs)
  show ?case
  proof
    assume "match_literal (p # ps) (c # cs)"
    with 3 obtain lit post where "cs = lit @ post" "map canonicalize lit = map canonicalize ps"
      "canonicalize p = canonicalize c" by (auto split: if_splits)
    then have "c # cs = (c # lit) @ post \<and> map canonicalize (c # lit) = map canonicalize (p # ps)"
      by simp
    then show "\<exists>lit post. c # cs = lit @ post \<and> map canonicalize lit = map canonicalize (p # ps)"
      by blast
  next
    assume "\<exists>lit post. c # cs = lit @ post \<and> map canonicalize lit = map canonicalize (p # ps)"
    then obtain lit post where h: "c # cs = lit @ post" "map canonicalize lit = map canonicalize (p # ps)"
      by blast
    then obtain l ls where "lit = l # ls" by (cases lit) auto
    with h 3 show "match_literal (p # ps) (c # cs)" by auto
  qed
qed

lemma canonicalize_slash_lit: "canonicalize CHR ''/'' = CHR ''/''"
  by (simp add: canonicalize_def)

lemma match_segment_iff:
  "match_segment seen cs \<longleftrightarrow>
     (\<exists>seg rest. cs = seg @ rest \<and> (\<forall>c \<in> set seg. in_class c) \<and> (seen \<or> seg \<noteq> []) \<and>
        match_literal ''/init.js'' rest)"
proof (induction cs arbitrary: seen)
  case Nil
  then show ?case by simp
next
  case (Cons c cs)
  show ?case
  proof (cases "in_class c")
    case True
    have no_lit: "\<not> match_literal ''/init.js'' (c # cs)"
      using True not_in_class_slash [of c] by (auto simp: canonicalize_slash_lit)
    show ?thesis
    proof
      assume "match_segment seen (c # cs)"
      with True Cons [of True] obtain seg rest where
        h: "cs = seg @ rest" "\<forall>c \<in> set seg. in_class c" "match_literal ''/init.js'' rest"
        by auto
      with True have "c # cs = (c # seg) @ rest \<and> (\<forall>x \<in> set (c # seg). in_class x) \<and>
          (seen \<or> c # seg \<noteq> []) \<and> match_literal ''/init.js'' rest"
        by simp
      then show "\<exists>seg rest. c # cs = seg @ rest \<and> (\<forall>c \<in> set seg. in_class c) \<and>
          (seen \<or> seg \<noteq> []) \<and> match_literal ''/init.js'' rest"
        by blast
    next
      assume "\<exists>seg rest. c # cs = seg @ rest \<and> (\<forall>c \<in> set seg. in_class c) \<and>
          (seen \<or> seg \<noteq> []) \<and> match_literal ''/init.js'' rest"
      then obtain seg rest where
        h: "c # cs = seg @ rest" "\<forall>c \<in> set seg. in_class c" "match_literal ''/init.js'' rest"
        by blast
      from h no_lit obtain seg' where s: "seg = c # seg'" by (cases seg) auto
      with h have "cs = seg' @ rest \<and> (\<forall>c \<in> set seg'. in_class c) \<and> match_literal ''/init.js'' rest"
        by simp
      then have "match_segment True cs" using Cons [of True] by blast
      with True show "match_segment seen (c # cs)" by simp
    qed
  next
    case False
    show ?thesis
    proof
      assume "match_segment seen (c # cs)"
      with False have "seen" "match_literal ''/init.js'' (c # cs)" by (auto split: if_splits)
      then have "c # cs = [] @ (c # cs) \<and> (\<forall>x \<in> set ([]::string). in_class x) \<and>
          (seen \<or> ([]::string) \<noteq> []) \<and> match_literal ''/init.js'' (c # cs)"
        by simp
      then show "\<exists>seg rest. c # cs = seg @ rest \<and> (\<forall>c \<in> set seg. in_class c) \<and>
          (seen \<or> seg \<noteq> []) \<and> match_literal ''/init.js'' rest"
        by blast
    next
      assume "\<exists>seg rest. c # cs = seg @ rest \<and> (\<forall>c \<in> set seg. in_class c) \<and>
          (seen \<or> seg \<noteq> []) \<and> match_literal ''/init.js'' rest"
      then obtain seg rest where
        h: "c # cs = seg @ rest" "\<forall>c \<in> set seg. in_class c" "seen \<or> seg \<noteq> []"
           "match_literal ''/init.js'' rest"
        by blast
      from h False have e: "seg = []" by (cases seg) auto
      with h have "rest = c # cs" "seen" by simp_all
      with h False show "match_segment seen (c # cs)" by simp
    qed
  qed
qed

lemma match_at_iff:
  "match_at cs \<longleftrightarrow>
     (\<exists>seg lit post. cs = ''/'' @ seg @ lit @ post \<and> seg \<noteq> [] \<and> (\<forall>c \<in> set seg. in_class c) \<and>
        map canonicalize lit = map canonicalize ''/init.js'')"
proof (cases cs)
  case Nil
  then show ?thesis by simp
next
  case (Cons c cs')
  have "match_at (c # cs') \<longleftrightarrow> c = CHR ''/'' \<and>
      (\<exists>seg rest. cs' = seg @ rest \<and> (\<forall>c \<in> set seg. in_class c) \<and> seg \<noteq> [] \<and>
         (\<exists>lit post. rest = lit @ post \<and> map canonicalize lit = map canonicalize ''/init.js''))"
    by (simp only: match_at.simps match_segment_iff [of False cs'] match_literal_iff simp_thms if_bool_eq_conj) blast
  also have "\<dots> \<longleftrightarrow> (\<exists>seg lit post. c # cs' = ''/'' @ seg @ lit @ post \<and> seg \<noteq> [] \<and>
      (\<forall>c \<in> set seg. in_class c) \<and> map canonicalize lit = map canonicalize ''/init.js'')"
    by (simp only: append_Cons append_Nil list.inject) blast
  finally show ?thesis using Cons by simp
qed

lemma PXSCRIPT_PATTERN_test_iff: "PXSCRIPT_PATTERN_test u \<longleftrightarrow> px_init_script u"
proof (induction u)
  case Nil
  then show ?case by (simp add: px_init_script_def)
next
  case (Cons c u)
  have "px_init_script (c # u) \<longleftrightarrow> match_at (c # u) \<or> px_init_script u"
  proof
    assume "px_init_script (c # u)"
    then obtain pre seg lit post where
      h: "c # u = pre @ ''/'' @ seg @ lit @ post" "seg \<noteq> []" "\<forall>c \<in> set seg. in_class c"
         "map canonicalize lit = map canonicalize ''/init.js''"
      unfolding px_init_script_def by blast
    show "match_at (c # u) \<or> px_init_script u"
    proof (cases pre)
      case Nil
      with h have "c # u = ''/'' @ seg @ lit @ post" by simp
      with h have "match_at (c # u)" unfolding match_at_iff by blast
      then show ?thesis ..
    next
      case (Cons a pre')
      with h have "u = pre' @ ''/'' @ seg @ lit @ post" by simp
      with h have "px_init_script u" unfolding px_init_script_def by blast
      then show ?thesis ..
    qed
  next
    assume "match_at (c # u) \<or> px_init_script u"
    then show "px_init_script (c # u)"
    proof
      assume "match_at (c # u)"
      then obtain seg lit post where
        m: "c # u = ''/'' @ seg @ lit @ post" "seg \<noteq> []" "\<forall>c \<in> set seg. in_class c"
        "map canonicalize lit = map canonicalize ''/init.js''"
        unfolding match_at_iff by blast
      then have "c # u = [] @ ''/'' @ seg @ lit @ post" by simp
      with m show ?thesis unfolding px_init_script_def by blast
    next
      assume "px_init_script u"
      then obtain pre seg lit post where
        "u = pre @ ''/'' @ seg @ lit @ post" "seg \<noteq> []" "\<forall>c \<in> set seg. in_class c"
        "map canonicalize lit = map canonicalize ''/init.js''"
        unfolding px_init_script_def by blast
      then have "c # u = (c # pre) @ ''/'' @ seg @ lit @ post \<and> seg \<noteq> [] \<and>
          (\<forall>c \<in> set seg. in_class c) \<and> map canonicalize lit = map canonicalize ''/init.js''"
        by simp
      then show ?thesis unfolding px_init_script_def by blast
    qed
  qed
  with Cons show ?case by simp
qed

section \<open>Awaited calls and the \<^verbatim>\<open>try\<close> statement\<close>


lemma await_Inl: "await c (Inl e) k s = (Inl e, record_call c s)"
  by (simp add: await_def)

lemma await_Inr: "await c (Inr v) k s = k v (record_call c s)"
  by (simp add: await_def)

lemma location_record_call: "location (record_call c s) = location s"
  by (simp add: record_call_def)

lemma calls_record_call: "calls (record_call c s) = calls s @ [c]"
  by (simp add: record_call_def)

lemma getBrowser_calls:
  "\<exists>evs. calls (snd (getBrowser p s)) = calls s @ evs \<and> PageClose \<notin> set evs"
  by (cases "browser s"; cases "launch p")
     (simp_all add: getBrowser_def await_def record_call_def)

lemma try_block_not_configured:
  "\<not> configured p \<Longrightarrow>
     \<exists>e. fst (try_block p u s) = Inl e \<and> location (snd (try_block p u s)) = location s"
  by (cases "setUserAgent p"; cases "setViewport p"; cases "evaluateOnNewDocument p";
      cases "setRequestInterception p")
     (simp_all add: configured_def try_block_def await_Inl await_Inr location_record_call)

lemma try_block_goto_rejects:
  "configured p \<Longrightarrow> page_goto p = Inl e \<Longrightarrow>
     fst (try_block p u s) = Inl e \<and> location (snd (try_block p u s)) = landing p"
  by (simp add: configured_def try_block_def goto_def await_Inl await_Inr location_record_call)

lemma try_block_no_response:
  "configured p \<Longrightarrow> page_goto p = Inr None \<Longrightarrow>
     fst (try_block p u s) =
       Inr \<lparr>html = None, status = 502,
            error = Some ''Navigation failed, no response received from the server.'',
            finalUrl = Some (landing p)\<rparr> \<and>
     location (snd (try_block p u s)) = landing p"
  by (simp add: configured_def try_block_def goto_def await_Inl await_Inr return_def
      page_url_def location_record_call BAD_GATEWAY_def)

lemma try_block_content_rejects:
  "configured p \<Longrightarrow> page_goto p = Inr (Some st) \<Longrightarrow> page_content p = Inl e \<Longrightarrow>
     fst (try_block p u s) = Inl e \<and> location (snd (try_block p u s)) = landing p"
  by (simp add: configured_def try_block_def goto_def await_Inl await_Inr location_record_call)

lemma try_block_response:
  "configured p \<Longrightarrow> page_goto p = Inr (Some st) \<Longrightarrow> page_content p = Inr h \<Longrightarrow>
     fst (try_block p u s) =
       Inr (if sublist ''px-captcha'' h \<or> st = 403
            then \<lparr>html = Some h, status = 403,
                   error = Some ''Bot detection or captcha was triggered.'',
                   finalUrl = Some (landing p)\<rparr>
            else \<lparr>html = Some h, status = st, error = None, finalUrl = Some (landing p)\<rparr>) \<and>
     location (snd (try_block p u s)) = landing p"
  by (simp add: configured_def try_block_def goto_def await_Inl await_Inr return_def
      page_url_def location_record_call FORBIDDEN_def includes_str_sublist)


lemma getPageContent_ready:
  "page_ready p s \<Longrightarrow> getPageContent p u s = try_catch_finally p u (entry p s)"
  by (cases "getBrowser p s"; cases "fst (getBrowser p s)")
     (simp_all add: page_ready_def getPageContent_def entry_def await_Inr)

lemma getPageContent_not_ready:
  "\<not> page_ready p s \<Longrightarrow>
     (\<exists>e. fst (getPageContent p u s) = Inl e) \<and>
     (\<exists>evs. calls (snd (getPageContent p u s)) = calls s @ evs \<and> PageClose \<notin> set evs)"
  using getBrowser_calls [of p s]
  by (cases "getBrowser p s"; cases "fst (getBrowser p s)"; cases "createBrowserContext p";
      cases "newPage p")
     (auto simp: page_ready_def getPageContent_def await_Inl await_Inr calls_record_call)

lemma try_catch_finally_fst:
  "fst (try_catch_finally p u s) =
     (case page_close p of
        Inl e \<Rightarrow> Inl e
      | Inr x \<Rightarrow> (case fst (try_block p u s) of
                      Inl e \<Rightarrow> catch_block u e (snd (try_block p u s))
                    | Inr r \<Rightarrow> Inr r))"
  by (cases "try_block p u s"; cases "fst (try_block p u s)"; cases "page_close p";
      cases "catch_block u (projl (fst (try_block p u s))) (snd (try_block p u s))")
     (simp_all add: try_catch_finally_def await_Inl await_Inr return_def throw_def)

lemma try_catch_finally_location:
  "location (snd (try_catch_finally p u s)) = location (snd (try_block p u s))"
  by (cases "try_block p u s"; cases "fst (try_block p u s)"; cases "page_close p";
      cases "catch_block u (projl (fst (try_block p u s))) (snd (try_block p u s))")
     (simp_all add: try_catch_finally_def await_Inl await_Inr return_def throw_def
        location_record_call)

lemma location_entry: "location (entry p s) = ''about:blank''"
  by (simp add: entry_def)

section \<open>Evaluation on concrete inputs\<close>

lemma canonicalize_eval:
  "canonicalize c =
     (
  if c = CHR ''a'' then CHR ''A'' else
      if c = CHR ''b'' then CHR ''B'' else
      if c = CHR ''c'' then CHR ''C'' else
      if c = CHR ''d'' then CHR ''D'' else
      if c = CHR ''e'' then CHR ''E'' else
      if c = CHR ''f'' then CHR ''F'' else
      if c = CHR ''g'' then CHR ''G'' else
      if c = CHR ''h'' then CHR ''H'' else
      if c = CHR ''i'' then CHR ''I'' else
      if c = CHR ''j'' then CHR ''J'' else
      if c = CHR ''k'' then CHR ''K'' else
      if c = CHR ''l'' then CHR ''L'' else
      if c = CHR ''m'' then CHR ''M'' else
      if c = CHR ''n'' then CHR ''N'' else
      if c = CHR ''o'' then CHR ''O'' else
      if c = CHR ''p'' then CHR ''P'' else
      if c = CHR ''q'' then CHR ''Q'' else
      if c = CHR ''r'' then CHR ''R'' else
      if c = CHR ''s'' then CHR ''S'' else
      if c = CHR ''t'' then CHR ''T'' else
      if c = CHR ''u'' then CHR ''U'' else
      if c = CHR ''v'' then CHR ''V'' else
      if c = CHR ''w'' then CHR ''W'' else
      if c = CHR ''x'' then CHR ''X'' else
      if c = CHR ''y'' then CHR ''Y'' else
      if c = CHR ''z'' then CHR ''Z'' else
      c)"
  by (simp add: canonicalize_def)

lemmas match_defs = in_class_def canonicalize_eval BLOCKED_TRACKING_DOMAINS_def

lemmas run_defs = getPageContent_def try_catch_finally_def try_block_def catch_block_def
  getBrowser_def await_def goto_def return_def throw_def record_call_def page_url_def
  nullish_coalescing_def BAD_GATEWAY_def FORBIDDEN_def GATEWAY_TIMEOUT_def
  INTERNAL_SERVER_ERROR_def ok_page_def idle_def chrome_def example_url_def

lemma ready_ok_page: "page_ready ok_page idle \<and> configured ok_page \<and> page_close ok_page = Inr ()"
  by (simp add: page_ready_def configured_def getBrowser_def await_def ok_page_def idle_def)

lemma ready_update:
  "page_ready (ok_page\<lparr>page_goto := g, page_content := c\<rparr>) idle \<and>
   configured (ok_page\<lparr>page_goto := g, page_content := c\<rparr>) \<and>
   page_close (ok_page\<lparr>page_goto := g, page_content := c\<rparr>) = Inr ()"
  by (simp add: page_ready_def configured_def getBrowser_def await_def ok_page_def idle_def)

lemma fields_update:
  "page_goto (ok_page\<lparr>page_goto := g, page_content := c\<rparr>) = g"
  "page_content (ok_page\<lparr>page_goto := g, page_content := c\<rparr>) = c"
  "landing (ok_page\<lparr>page_goto := g, page_content := c\<rparr>) = ''https://example.test/ok''"
  by (simp_all add: ok_page_def)

lemma catch_block_fields:
  "catch_block u e s = Inr r \<Longrightarrow>
     html r = None \<and> error r \<noteq> None \<and> status r \<in> {504, 500} \<and> finalUrl r = Some (location s)"
  by (auto simp: catch_block_def page_url_def nullish_coalescing_def GATEWAY_TIMEOUT_def
      INTERNAL_SERVER_ERROR_def split: if_splits)


section \<open>The interception handler\<close>

text \<open>
  Claim C6. For every intercepted request the handler applies its rules in this order:
  a URL in the language of the init-script pattern is aborted (with a warning);
  otherwise a URL that contains one of the configured tracking domains is aborted;
  otherwise the request continues unmodified.
\<close>

theorem on_request_rules:
  "on_request request =
     (if px_init_script (request_url request) then
        [LogWarn (''Aborting PerimeterX init.js: '' @ request_url request), Abort ''aborted'']
      else if \<exists>domain \<in> set BLOCKED_TRACKING_DOMAINS. sublist domain (request_url request) then
        [LogLog (''Aborting tracker: '' @ request_url request), Abort ''aborted'']
      else [Continue])"
  by (simp add: on_request_def PXSCRIPT_PATTERN_test_iff includes_str_sublist list_ex_iff)

theorem on_request_rules_witness:
  "on_request init_script_request =
     [LogWarn ''Aborting PerimeterX init.js: https://www.google-analytics.com/AB12CD34/init.js'',
      Abort ''aborted''] \<and>
   on_request tracker_request =
     [LogLog ''Aborting tracker: https://www.google-analytics.com/collect'', Abort ''aborted''] \<and>
   on_request document_request = [Continue]"
proof -
  have a: "px_init_script (request_url init_script_request)"
    unfolding PXSCRIPT_PATTERN_test_iff [symmetric]
    by (simp add: init_script_request_def match_defs)
  have b: "\<not> px_init_script (request_url tracker_request)"
    unfolding PXSCRIPT_PATTERN_test_iff [symmetric]
    by (simp add: tracker_request_def match_defs)
  have c: "\<exists>domain \<in> set BLOCKED_TRACKING_DOMAINS. sublist domain (request_url tracker_request)"
    unfolding includes_str_sublist [symmetric]
    by (simp add: tracker_request_def match_defs)
  have d: "\<not> px_init_script (request_url document_request)"
    unfolding PXSCRIPT_PATTERN_test_iff [symmetric]
    by (simp add: document_request_def match_defs)
  have e: "\<not> (\<exists>domain \<in> set BLOCKED_TRACKING_DOMAINS. sublist domain (request_url document_request))"
    unfolding includes_str_sublist [symmetric]
    by (simp add: document_request_def match_defs)
  have a': "on_request init_script_request =
      [LogWarn (''Aborting PerimeterX init.js: '' @ request_url init_script_request), Abort ''aborted'']"
    using on_request_rules [of init_script_request] a by simp
  have c': "on_request tracker_request =
      [LogLog (''Aborting tracker: '' @ request_url tracker_request), Abort ''aborted'']"
    using on_request_rules [of tracker_request] b c by simp
  have e': "on_request document_request = [Continue]"
    using on_request_rules [of document_request] d e by simp
  show ?thesis
    using a' c' e' by (simp add: init_script_request_def tracker_request_def)
qed

text \<open>
  Claim C10. The decision is a total function of the request URL alone: on every
  request the handler calls exactly one of abort and continue, once, and two requests
  with the same URL get the same treatment whatever their other attributes.
\<close>

theorem on_request_decides_once:
  "aborts (on_request request) + continues (on_request request) = 1 \<and>
   (request_url request = request_url request' \<longrightarrow> on_request request = on_request request')"
  by (simp add: on_request_def aborts_def continues_def Let_def)

theorem on_request_decides_once_witness:
  "request_url document_request = request_url (document_request\<lparr>request_method := ''POST''\<rparr>) \<and>
   document_request \<noteq> document_request\<lparr>request_method := ''POST''\<rparr> \<and>
   on_request document_request = on_request (document_request\<lparr>request_method := ''POST''\<rparr>) \<and>
   aborts (on_request document_request) + continues (on_request document_request) = 1"
proof -
  have u: "request_url document_request = request_url (document_request\<lparr>request_method := ''POST''\<rparr>)"
    by simp
  have n: "document_request \<noteq> document_request\<lparr>request_method := ''POST''\<rparr>"
    by (simp add: document_request_def)
  from on_request_decides_once [of document_request "document_request\<lparr>request_method := ''POST''\<rparr>"] u n
  show ?thesis by blast
qed

section \<open>Acquiring the browser\<close>



section \<open>Fetching a page\<close>

lemma returned_ready:
  assumes "fst (getPageContent p u s) = Inr r"
  shows "page_ready p s \<and> page_close p = Inr ()"
proof (cases "page_ready p s")
  case True
  with assms show ?thesis
    by (cases "page_close p") (simp_all add: getPageContent_ready try_catch_finally_fst)
next
  case False
  with assms show ?thesis using getPageContent_not_ready [of p s u] by auto
qed

lemma returned_result:
  assumes "fst (getPageContent p u s) = Inr r"
  shows "(case fst (try_block p u (entry p s)) of
            Inl e \<Rightarrow> catch_block u e (snd (try_block p u (entry p s)))
          | Inr r' \<Rightarrow> Inr r') = Inr r"
  using assms returned_ready [OF assms]
  by (simp add: getPageContent_ready try_catch_finally_fst)

text \<open>The five ways the \<^verbatim>\<open>try\<close> statement ends, read off the answers of the browser.\<close>

lemma returned_cases:
  assumes "fst (getPageContent p u s) = Inr r"
  shows "(\<not> configured p \<and> (\<exists>e. catch_block u e (snd (try_block p u (entry p s))) = Inr r)) \<or>
         (configured p \<and> (\<exists>e. page_goto p = Inl e \<and>
            catch_block u e (snd (try_block p u (entry p s))) = Inr r)) \<or>
         (configured p \<and> page_goto p = Inr None \<and>
            r = \<lparr>html = None, status = 502,
                 error = Some ''Navigation failed, no response received from the server.'',
                 finalUrl = Some (landing p)\<rparr>) \<or>
         (configured p \<and> (\<exists>st e. page_goto p = Inr (Some st) \<and> page_content p = Inl e \<and>
            catch_block u e (snd (try_block p u (entry p s))) = Inr r)) \<or>
         (configured p \<and> (\<exists>st h. page_goto p = Inr (Some st) \<and> page_content p = Inr h \<and>
            r = (if sublist ''px-captcha'' h \<or> st = 403
                 then \<lparr>html = Some h, status = 403,
                        error = Some ''Bot detection or captcha was triggered.'',
                        finalUrl = Some (landing p)\<rparr>
                 else \<lparr>html = Some h, status = st, error = None, finalUrl = Some (landing p)\<rparr>)))"
proof (cases "configured p")
  case False
  then show ?thesis
    using returned_result [OF assms] try_block_not_configured [of p u "entry p s"] by auto
next
  case True
  show ?thesis
  proof (cases "page_goto p")
    case (Inl e)
    then show ?thesis
      using True returned_result [OF assms] try_block_goto_rejects [of p e u "entry p s"] by simp
  next
    case (Inr response)
    show ?thesis
    proof (cases response)
      case None
      then show ?thesis
        using True Inr returned_result [OF assms] try_block_no_response [of p u "entry p s"]
        by auto
    next
      case (Some st)
      show ?thesis
      proof (cases "page_content p")
        case (Inl e)
        then show ?thesis
          using True Inr Some returned_result [OF assms]
            try_block_content_rejects [of p st e u "entry p s"] by simp
      next
        case (Inr h)
        then show ?thesis
          using True \<open>page_goto p = Inr response\<close> Some returned_result [OF assms]
            try_block_response [of p st h u "entry p s"] by auto
      qed
    qed
  qed
qed

text \<open>
  Claim C1. getPageContent never lets an exception reach its caller; if acquiring the
  browser fails, it returns a result with status 500, a generic internal-error message
  and no HTML. The code does not do this: the browser is acquired before the
  \<^verbatim>\<open>try\<close> statement, so a rejected launch leaves getPageContent as an exception,
  with the launch as the only call issued. The same rejection raised by the first call
  inside the \<^verbatim>\<open>try\<close> statement gives the status-500 result the claim describes.
\<close>

theorem launch_failure_propagates:
  "getPageContent (ok_page\<lparr>launch := Inl Error\<rparr>) example_url idle =
     (Inl Error, idle\<lparr>calls := [Launch]\<rparr>) \<and>
   fst (getPageContent (ok_page\<lparr>setUserAgent := Inl Error\<rparr>) example_url idle) =
     Inr \<lparr>html = None, status = 500,
          error = Some ''An unexpected internal error occurred during page processing. See service logs for details.'',
          finalUrl = Some ''about:blank''\<rparr>"
  by (simp add: run_defs)

text \<open>
  Claim C2. The browsing context created during a fetch (and its page) is closed
  exactly once before the call produces its result or unwinds, on every path. The code
  does not do this: when the page cannot be created, the context has been created, the
  call unwinds with the exception, and no closing call has been issued.
\<close>

theorem context_without_close:
  "fst (getPageContent (ok_page\<lparr>newPage := Inl Error\<rparr>) example_url idle) = Inl Error \<and>
   calls (snd (getPageContent (ok_page\<lparr>newPage := Inl Error\<rparr>) example_url idle)) =
     [Launch, CreateBrowserContext, NewPage]"
  by (simp add: getPageContent_def getBrowser_def await_def record_call_def ok_page_def idle_def)

text \<open>
  Claim C3, as stated: with a response received, the challenge marker in the content
  or a response status 403 gives status 403, the HTML, the final URL and the error
  message "bot detection or captcha triggered". The message of the code is another one.
\<close>

theorem challenge_message_differs:
  "fst (getPageContent (ok_page\<lparr>page_content := Inr ''<div id=px-captcha></div>''\<rparr>) example_url idle) =
     Inr \<lparr>html = Some ''<div id=px-captcha></div>'', status = 403,
          error = Some ''Bot detection or captcha was triggered.'',
          finalUrl = Some ''https://example.test/ok''\<rparr> \<and>
   fst (getPageContent (ok_page\<lparr>page_content := Inr ''<div id=px-captcha></div>''\<rparr>) example_url idle) \<noteq>
     Inr \<lparr>html = Some ''<div id=px-captcha></div>'', status = 403,
          error = Some ''bot detection or captcha triggered'',
          finalUrl = Some ''https://example.test/ok''\<rparr>"
  by (simp add: run_defs)

text \<open>
  Claim C3, amended. Whenever navigation yields a response and the content is read, if
  the content contains the marker \<^verbatim>\<open>px-captcha\<close> or the response status is 403, then the
  result of the fetch has status 403, carries the HTML, has the error message
  "Bot detection or captcha was triggered." and the current URL of the page as final
  URL, whatever the status of the response and whether or not the marker is present
  when the status is 403.
\<close>

theorem challenge_is_forbidden:
  assumes "page_ready p s" and "configured p"
    and "page_goto p = Inr (Some st)" and "page_content p = Inr h"
    and "sublist ''px-captcha'' h \<or> st = 403"
    and "page_close p = Inr ()"
  shows "fst (getPageContent p u s) =
           Inr \<lparr>html = Some h, status = 403,
                error = Some ''Bot detection or captcha was triggered.'',
                finalUrl = page_url (snd (getPageContent p u s))\<rparr> \<and>
         page_url (snd (getPageContent p u s)) = Some (landing p)"
  using assms try_block_response [of p st h u "entry p s"]
  by (simp add: getPageContent_ready try_catch_finally_fst try_catch_finally_location page_url_def)

theorem challenge_is_forbidden_witness:
  "fst (getPageContent (ok_page\<lparr>page_goto := Inr (Some 200), page_content := Inr ''<p id=px-captcha>''\<rparr>)
         example_url idle) =
     Inr \<lparr>html = Some ''<p id=px-captcha>'', status = 403,
          error = Some ''Bot detection or captcha was triggered.'',
          finalUrl = Some ''https://example.test/ok''\<rparr> \<and>
   fst (getPageContent (ok_page\<lparr>page_goto := Inr (Some 403), page_content := Inr ''Forbidden''\<rparr>)
         example_url idle) =
     Inr \<lparr>html = Some ''Forbidden'', status = 403,
          error = Some ''Bot detection or captcha was triggered.'',
          finalUrl = Some ''https://example.test/ok''\<rparr>"
proof -
  have m: "sublist ''px-captcha'' ''<p id=px-captcha>''"
    unfolding includes_str_sublist [symmetric] by simp
  show ?thesis
    using challenge_is_forbidden
        [of "ok_page\<lparr>page_goto := Inr (Some 200), page_content := Inr ''<p id=px-captcha>''\<rparr>"
          idle 200 "''<p id=px-captcha>''" example_url]
      challenge_is_forbidden
        [of "ok_page\<lparr>page_goto := Inr (Some 403), page_content := Inr ''Forbidden''\<rparr>"
          idle 403 "''Forbidden''" example_url]
      ready_update m
    by (simp add: fields_update)
qed

text \<open>
  Claim C4, as stated: whenever navigation completes without a response object,
  getPageContent returns a result with status 502, no HTML, the current URL of the page
  and the error message "navigation failed, no response from server". The message of
  the code is another one, and when the closing call of the \<^verbatim>\<open>finally\<close> clause is
  rejected no result is returned.
\<close>

theorem no_response_message_differs:
  "fst (getPageContent (ok_page\<lparr>page_goto := Inr None\<rparr>) example_url idle) =
     Inr \<lparr>html = None, status = 502,
          error = Some ''Navigation failed, no response received from the server.'',
          finalUrl = Some ''https://example.test/ok''\<rparr> \<and>
   fst (getPageContent (ok_page\<lparr>page_goto := Inr None\<rparr>) example_url idle) \<noteq>
     Inr \<lparr>html = None, status = 502,
          error = Some ''navigation failed, no response from server'',
          finalUrl = Some ''https://example.test/ok''\<rparr> \<and>
   fst (getPageContent (ok_page\<lparr>page_goto := Inr None, page_close := Inl Error\<rparr>) example_url idle) =
     Inl Error"
  by (simp add: run_defs)

text \<open>
  Claim C4, amended. Whenever navigation completes but produces no response object and
  the closing call of the \<^verbatim>\<open>finally\<close> clause resolves, getPageContent returns a result
  with status 502, no HTML, the error message
  "Navigation failed, no response received from the server." and the current URL of
  the page at that moment as final URL.
\<close>

theorem no_response_is_bad_gateway:
  assumes "page_ready p s" and "configured p"
    and "page_goto p = Inr None" and "page_close p = Inr ()"
  shows "fst (getPageContent p u s) =
           Inr \<lparr>html = None, status = 502,
                error = Some ''Navigation failed, no response received from the server.'',
                finalUrl = page_url (snd (getPageContent p u s))\<rparr> \<and>
         page_url (snd (getPageContent p u s)) = Some (landing p)"
  using assms try_block_no_response [of p u "entry p s"]
  by (simp add: getPageContent_ready try_catch_finally_fst try_catch_finally_location page_url_def)

theorem no_response_is_bad_gateway_witness:
  "fst (getPageContent (ok_page\<lparr>page_goto := Inr None, page_content := Inl Error\<rparr>)
         ''https://example.test/start'' idle) =
     Inr \<lparr>html = None, status = 502,
          error = Some ''Navigation failed, no response received from the server.'',
          finalUrl = Some ''https://example.test/ok''\<rparr>"
  using no_response_is_bad_gateway
      [of "ok_page\<lparr>page_goto := Inr None, page_content := Inl Error\<rparr>" idle
        "''https://example.test/start''"]
    ready_update
  by (simp add: fields_update)




text \<open>
  Claim C8, as stated: the error field of a returned result is populated exactly when
  the status is a non-success one, the non-success statuses being 403, 502, 504 and 500.
  It fails for a response with status 500 and no marker: the status is passed through
  and no error is set.
\<close>

theorem upstream_error_passed_through:
  "fst (getPageContent (ok_page\<lparr>page_goto := Inr (Some 500)\<rparr>) example_url idle) =
     Inr \<lparr>html = Some ''<html>...</html>'', status = 500, error = None,
          finalUrl = Some ''https://example.test/ok''\<rparr>"
  by (simp add: run_defs)

text \<open>
  Claim C8, amended. In a returned result the error field is absent exactly when a
  response was received whose status is not 403 and whose content lacks the marker;
  the result then carries that status unchanged, whatever it is, and the content. A
  populated error field comes with one of the statuses 403, 502, 504 and 500. Hence
  the error field is populated exactly when the status is one of 403, 502, 504 and 500
  as long as the status of the response itself is none of 500, 502 and 504, which
  includes every status from 200 to 399.
\<close>

theorem error_populated_iff:
  assumes "fst (getPageContent p u s) = Inr r"
  shows "(error r = None \<longleftrightarrow>
            configured p \<and>
            (\<exists>st h. page_goto p = Inr (Some st) \<and> page_content p = Inr h \<and>
               st \<noteq> 403 \<and> \<not> sublist ''px-captcha'' h \<and>
               r = \<lparr>html = Some h, status = st, error = None, finalUrl = Some (landing p)\<rparr>)) \<and>
         (error r \<noteq> None \<longrightarrow> status r \<in> {403, 502, 504, 500}) \<and>
         ((\<forall>st. page_goto p = Inr (Some st) \<longrightarrow> st \<notin> {500, 502, 504}) \<longrightarrow>
            (error r \<noteq> None \<longleftrightarrow> status r \<in> {403, 502, 504, 500}))"
  using returned_cases [OF assms]
  by (elim disjE conjE exE) (auto split: if_splits dest: catch_block_fields)

theorem error_populated_iff_witness:
  "fst (getPageContent (ok_page\<lparr>page_goto := Inr (Some 200), page_content := Inr ''<html>...</html>''\<rparr>)
         example_url idle) =
     Inr \<lparr>html = Some ''<html>...</html>'', status = 200, error = None,
          finalUrl = Some ''https://example.test/ok''\<rparr> \<and>
   fst (getPageContent (ok_page\<lparr>page_goto := Inr None, page_content := Inl Error\<rparr>) example_url idle) =
     Inr \<lparr>html = None, status = 502,
          error = Some ''Navigation failed, no response received from the server.'',
          finalUrl = Some ''https://example.test/ok''\<rparr> \<and>
   sublist ''px-captcha'' ''<html>...</html>'' = False"
proof -
  let ?p = "ok_page\<lparr>page_goto := Inr (Some 200), page_content := Inr ''<html>...</html>''\<rparr>"
  let ?q = "ok_page\<lparr>page_goto := Inr None, page_content := Inl Error\<rparr>"
  let ?r = "\<lparr>html = Some ''<html>...</html>'', status = 200, error = None,
            finalUrl = Some ''https://example.test/ok''\<rparr>"
  let ?t = "\<lparr>html = None, status = 502,
            error = Some ''Navigation failed, no response received from the server.'',
            finalUrl = Some ''https://example.test/ok''\<rparr>"
  have a: "fst (getPageContent ?p example_url idle) = Inr ?r"
    by (simp add: run_defs)
  have b: "fst (getPageContent ?q example_url idle) = Inr ?t"
    by (simp add: run_defs)
  have c: "\<not> sublist ''px-captcha'' ''<html>...</html>''"
    using error_populated_iff [OF a] by (simp add: fields_update)
  have d: "status ?t \<in> {403, 502, 504, 500}"
    using error_populated_iff [OF b] by simp
  from a b c d show ?thesis by simp
qed

text \<open>
  Claim C9, as stated: the html field is a string if and only if navigation produced a
  response object. It fails when a response was received and reading the content is
  rejected: the result has no HTML.
\<close>

theorem response_without_html:
  "configured (ok_page\<lparr>page_content := Inl Error\<rparr>) \<and>
   page_goto (ok_page\<lparr>page_content := Inl Error\<rparr>) = Inr (Some 200) \<and>
   fst (getPageContent (ok_page\<lparr>page_content := Inl Error\<rparr>) example_url idle) =
     Inr \<lparr>html = None, status = 500,
          error = Some ''An unexpected internal error occurred during page processing. See service logs for details.'',
          finalUrl = Some ''https://example.test/ok''\<rparr>"
  by (simp add: run_defs configured_def)

text \<open>
  Claim C9, amended. In a returned result the html field is a string if and only if
  navigation produced a response object and the content of the page could be read,
  which are the success path and the 403 path; the string is that content. In every
  other outcome html is null, the status is 502, 504 or 500 and the error is set. The
  finalUrl field is present in every returned result.
\<close>

theorem html_present_iff:
  assumes "fst (getPageContent p u s) = Inr r"
  shows "(html r \<noteq> None \<longleftrightarrow>
            configured p \<and> (\<exists>st h. page_goto p = Inr (Some st) \<and> page_content p = Inr h)) \<and>
         (\<forall>h. html r = Some h \<longrightarrow>
            page_content p = Inr h \<and> (status r = 403 \<or> error r = None)) \<and>
         (html r = None \<longrightarrow> status r \<in> {502, 504, 500} \<and> error r \<noteq> None) \<and>
         finalUrl r \<noteq> None"
  using returned_cases [OF assms]
  by (elim disjE conjE exE) (auto split: if_splits dest: catch_block_fields)

theorem html_present_iff_witness:
  "fst (getPageContent (ok_page\<lparr>page_goto := Inr (Some 404), page_content := Inr ''Not Found''\<rparr>)
         example_url idle) =
     Inr \<lparr>html = Some ''Not Found'', status = 404, error = None,
          finalUrl = Some ''https://example.test/ok''\<rparr> \<and>
   fst (getPageContent (ok_page\<lparr>page_goto := Inl Error, page_content := Inl Error\<rparr>) example_url idle) =
     Inr \<lparr>html = None, status = 500,
          error = Some ''An unexpected internal error occurred during page processing. See service logs for details.'',
          finalUrl = Some ''https://example.test/ok''\<rparr> \<and>
   configured (ok_page\<lparr>page_goto := Inr (Some 404), page_content := Inr ''Not Found''\<rparr>) \<and>
   configured (ok_page\<lparr>page_goto := Inl Error, page_content := Inl Error\<rparr>)"
proof -
  let ?p = "ok_page\<lparr>page_goto := Inr (Some 404), page_content := Inr ''Not Found''\<rparr>"
  let ?q = "ok_page\<lparr>page_goto := Inl Error, page_content := Inl Error\<rparr>"
  let ?r = "\<lparr>html = Some ''Not Found'', status = 404, error = None,
            finalUrl = Some ''https://example.test/ok''\<rparr>"
  let ?t = "\<lparr>html = None, status = 500,
            error = Some ''An unexpected internal error occurred during page processing. See service logs for details.'',
            finalUrl = Some ''https://example.test/ok''\<rparr>"
  have a: "fst (getPageContent ?p example_url idle) = Inr ?r"
    by (simp add: run_defs)
  have b: "fst (getPageContent ?q example_url idle) = Inr ?t"
    by (simp add: run_defs)
  have c: "configured ?p"
    using html_present_iff [OF a] by simp
  have d: "status ?t \<in> {502, 504, 500}"
    using html_present_iff [OF b] by simp
  from a b c d ready_update [of "Inl Error" "Inl Error"] show ?thesis by simp
qed

end
